theory Spec2Isabelle
  imports Main "HOL-Library.Char_ord" "HOL-Library.List_Lexorder"
begin

section \<open>The event store of the Booster framework core\<close>

text \<open>
  A shallow embedding of the class \<open>EventStore\<close>: \<open>fetchEntitySnapshot\<close>,
  \<open>calculateAndStoreEntitySnapshot\<close> and the private methods they call.

  \<^item> A rejected promise or a thrown exception is the left summand of a result
    \<open>js_error + 'a\<close>; every \<open>await\<close> is a sequential step.
  \<^item> The persistence provider is an external collaborator. It is a record of three
    functions over a provider state \<open>'p\<close>, each of which may fail and may change
    that state. Every call to it is appended to the \<open>trace\<close> of the world, so that
    "no store call was made" is a statement about the trace.
  \<^item> \<open>new Date()\<close> reads the clock of the world: the \<open>n\<close>-th reading is
    \<open>clock w n\<close>, and \<open>ticks\<close> counts the readings made so far.
  \<^item> \<open>logger.debug\<close> calls only print and are left out; \<open>logger.error\<close> is
    recorded in the trace.
  \<^item> \<open>null\<close> and \<open>undefined\<close> are \<open>None\<close>.
\<close>

subsection \<open>Data\<close>

type_synonym UUID = string

text \<open>A \<open>Date\<close> is represented by its \<open>toISOString()\<close> rendering.\<close>

type_synonym Date = string

datatype EnvelopeKind = event | snapshot

text \<open>
  The envelope type of \<open>framework-types\<close>. The payload is opaque (\<open>'v\<close>), and may
  be \<open>null\<close>. \<open>snapshottedEventCreatedAt\<close> is present on snapshots only.
\<close>

record 'v EventEnvelope =
  version :: int
  kind :: EnvelopeKind
  requestID :: UUID
  entityID :: UUID
  entityTypeName :: string
  typeName :: string
  val :: "'v option"
  createdAt :: string
  snapshottedEventCreatedAt :: "string option"

datatype js_error =
    InvalidParameterError string
  | GenericError string
  | TypeError

text \<open>
  A reducer takes the event's value and the previous entity value (or \<open>null\<close>) and
  returns the new entity value, or throws.
\<close>

type_synonym 'v reducer = "'v option \<Rightarrow> 'v option \<Rightarrow> js_error + 'v option"

text \<open>
  A class object, seen through its property reads: reading a member, own or inherited,
  yields a function, yields a value that cannot be called (\<open>undefined\<close> for a member
  that does not exist), or throws (an accessor or a proxy). The entry of
  \<open>config.reducers\<close> names a class and a method; \<open>cls\<close> is \<open>None\<close> when the
  class reference is \<open>undefined\<close> at run time.
\<close>

datatype 'v member = Callable "'v reducer" | Not_callable | Throws js_error

record 'v Class =
  name :: string
  read_member :: "string \<Rightarrow> 'v member"

record 'v ReducerMetadata =
  cls :: "'v Class option"
  methodName :: string

record ('p, 'v) ProviderEventsLibrary =
  store :: "'v EventEnvelope list \<Rightarrow> 'p \<Rightarrow> (js_error + unit) \<times> 'p"
  latestEntitySnapshot ::
    "string \<Rightarrow> UUID \<Rightarrow> Date option \<Rightarrow> 'p \<Rightarrow> (js_error + 'v EventEnvelope option) \<times> 'p"
  forEntitySince ::
    "string \<Rightarrow> UUID \<Rightarrow> string \<Rightarrow> 'p \<Rightarrow> (js_error + 'v EventEnvelope list) \<times> 'p"

record ('p, 'v) ProviderLibrary =
  events :: "('p, 'v) ProviderEventsLibrary"

text \<open>
  \<open>config.reducers\<close> is a plain object: \<open>reducers\<close> holds its own entries, and a
  name it does not hold is looked up in \<open>Object.prototype\<close>.
\<close>

record ('p, 'v) BoosterConfig =
  provider :: "('p, 'v) ProviderLibrary"
  reducers :: "string \<rightharpoonup> 'v ReducerMetadata"
  currentVersionFor :: "string \<Rightarrow> int"

datatype 'v effect =
    Call_store "'v EventEnvelope list"
  | Call_latestEntitySnapshot string UUID "Date option"
  | Call_forEntitySince string UUID string
  | Logger_error js_error

record ('p, 'v) world =
  pstate :: 'p
  clock :: "nat \<Rightarrow> string"
  ticks :: nat
  trace :: "'v effect list"

text \<open>\<open>new Date(0).toISOString()\<close>, the Unix epoch.\<close>

definition originOfTime :: string where
  "originOfTime = ''1970-01-01T00:00:00.000Z''"

subsection \<open>Calls to the provider\<close>

definition storeSnapshot ::
  "('p, 'v) BoosterConfig \<Rightarrow> 'v EventEnvelope \<Rightarrow> ('p, 'v) world
    \<Rightarrow> (js_error + unit) \<times> ('p, 'v) world" where
  "storeSnapshot cfg snap w =
     (case store (events (provider cfg)) [snap] (pstate w) of
        (r, p') \<Rightarrow> (r, w\<lparr>pstate := p', trace := trace w @ [Call_store [snap]]\<rparr>))"

definition loadSnapshot ::
  "('p, 'v) BoosterConfig \<Rightarrow> string \<Rightarrow> UUID \<Rightarrow> Date option \<Rightarrow> ('p, 'v) world
    \<Rightarrow> (js_error + 'v EventEnvelope option) \<times> ('p, 'v) world" where
  "loadSnapshot cfg entityName entityId at w =
     (case latestEntitySnapshot (events (provider cfg)) entityName entityId at (pstate w) of
        (r, p') \<Rightarrow>
          (r, w\<lparr>pstate := p',
                trace := trace w @ [Call_latestEntitySnapshot entityName entityId at]\<rparr>))"

text \<open>
  The member read \<open>this.loadLatestSnapshot\<close>. The class defines the methods
  \<open>fetchEntitySnapshot\<close>, \<open>calculateAndStoreEntitySnapshot\<close>, \<open>storeSnapshot\<close>,
  \<open>loadSnapshot\<close>, \<open>loadEventStreamSince\<close>, \<open>entityReducer\<close> and
  \<open>reducerForEvent\<close> and extends no other class, so this read yields \<open>undefined\<close>.
\<close>

definition loadLatestSnapshot ::
  "(('p, 'v) BoosterConfig \<Rightarrow> string \<Rightarrow> UUID \<Rightarrow> ('p, 'v) world
    \<Rightarrow> (js_error + 'v EventEnvelope option) \<times> ('p, 'v) world) option" where
  "loadLatestSnapshot = None"

definition loadEventStreamSince ::
  "('p, 'v) BoosterConfig \<Rightarrow> string \<Rightarrow> UUID \<Rightarrow> string \<Rightarrow> ('p, 'v) world
    \<Rightarrow> (js_error + 'v EventEnvelope list) \<times> ('p, 'v) world" where
  "loadEventStreamSince cfg entityTypeName' entityId timestamp w =
     (case forEntitySince (events (provider cfg)) entityTypeName' entityId timestamp (pstate w) of
        (r, p') \<Rightarrow>
          (r, w\<lparr>pstate := p',
                trace := trace w @ [Call_forEntitySince entityTypeName' entityId timestamp]\<rparr>))"

subsection \<open>Reducer lookup and one fold step\<close>

text \<open>
  The property names that every plain object inherits from \<open>Object.prototype\<close>. The
  value read under \<open>__proto__\<close> is \<open>Object.prototype\<close> itself, under the others a
  function; none of these values has a property \<open>class\<close>.
\<close>

definition Object_prototype :: "string list" where
  "Object_prototype =
     [''constructor'', ''__defineGetter__'', ''__defineSetter__'', ''hasOwnProperty'',
      ''__lookupGetter__'', ''__lookupSetter__'', ''isPrototypeOf'', ''propertyIsEnumerable'',
      ''toString'', ''valueOf'', ''__proto__'', ''toLocaleString'']"

text \<open>
  \<open>reducerForEvent\<close>. The lookup \<open>this.config.reducers[eventName]\<close> finds an own
  entry, or else an inherited member, or else \<open>undefined\<close>; only in the last case is
  \<open>InvalidParameterError\<close> thrown. With an entry, the member \<open>methodName\<close> of the
  class is read inside \<open>try\<close>: a member that does not exist reads as \<open>undefined\<close>
  without an exception, and that is what the method returns then; a read that throws
  is caught and replaced by the \<open>Error\<close> of the \<open>catch\<close> block. When the class
  reference is \<open>undefined\<close> (as it is for every inherited member), the read throws and
  the \<open>catch\<close> block, building its message from \<open>reducerMetadata.class.name\<close>,
  throws a \<open>TypeError\<close> in turn.
\<close>

definition reducerForEvent ::
  "('p, 'v) BoosterConfig \<Rightarrow> string \<Rightarrow> js_error + 'v reducer option" where
  "reducerForEvent cfg eventName =
     (case reducers cfg eventName of
        None \<Rightarrow>
          if eventName \<in> set Object_prototype then Inl TypeError
          else Inl (InvalidParameterError (''No reducer registered for event '' @ eventName))
      | Some reducerMetadata \<Rightarrow>
          (case cls reducerMetadata of
             None \<Rightarrow> Inl TypeError
           | Some c \<Rightarrow>
               (case read_member c (methodName reducerMetadata) of
                  Callable r \<Rightarrow> Inr (Some r)
                | Not_callable \<Rightarrow> Inr None
                | Throws e \<Rightarrow>
                    Inl (GenericError (''Couldn't load the Entity class '' @ name c)))))"

text \<open>Calling a value: one that is not a function throws a \<open>TypeError\<close>.\<close>

definition call_function :: "'v reducer option \<Rightarrow> 'v reducer" where
  "call_function f x y = (case f of None \<Rightarrow> Inl TypeError | Some r \<Rightarrow> r x y)"

definition entityReducer ::
  "('p, 'v) BoosterConfig \<Rightarrow> 'v EventEnvelope option \<Rightarrow> 'v EventEnvelope \<Rightarrow> ('p, 'v) world
    \<Rightarrow> (js_error + 'v EventEnvelope) \<times> ('p, 'v) world" where
  "entityReducer cfg latestSnapshot eventEnvelope w =
     (let snapshotValue = (case latestSnapshot of None \<Rightarrow> None | Some s \<Rightarrow> val s) in
      case (case reducerForEvent cfg (typeName eventEnvelope) of
              Inl e \<Rightarrow> Inl e
            | Inr f \<Rightarrow> call_function f (val eventEnvelope) snapshotValue) of
        Inl e \<Rightarrow> (Inl e, w\<lparr>trace := trace w @ [Logger_error e]\<rparr>)
      | Inr newEntity \<Rightarrow>
          (Inr \<lparr>version = currentVersionFor cfg (entityTypeName eventEnvelope),
                kind = snapshot,
                requestID = requestID eventEnvelope,
                entityID = entityID eventEnvelope,
                entityTypeName = entityTypeName eventEnvelope,
                typeName = entityTypeName eventEnvelope,
                val = newEntity,
                createdAt = clock w (ticks w),
                snapshottedEventCreatedAt = Some (createdAt eventEnvelope)\<rparr>,
           w\<lparr>ticks := Suc (ticks w)\<rparr>))"

text \<open>
  \<open>xs.reduce(this.entityReducer.bind(this), init)\<close>: a left fold that stops at the
  first exception.
\<close>

fun reduce ::
  "('p, 'v) BoosterConfig \<Rightarrow> 'v EventEnvelope list \<Rightarrow> 'v EventEnvelope option
    \<Rightarrow> ('p, 'v) world \<Rightarrow> (js_error + 'v EventEnvelope option) \<times> ('p, 'v) world" where
  "reduce cfg [] acc w = (Inr acc, w)"
| "reduce cfg (e # es) acc w =
     (case entityReducer cfg acc e w of
        (Inl err, w') \<Rightarrow> (Inl err, w')
      | (Inr snap, w') \<Rightarrow> reduce cfg es (Some snap) w')"

subsection \<open>The two public operations\<close>

text \<open>\<open>snapshotEnvelope?.snapshottedEventCreatedAt ?? originOfTime\<close>\<close>

definition lastVisitedTime :: "'v EventEnvelope option \<Rightarrow> string" where
  "lastVisitedTime snapshotEnvelope =
     (case snapshotEnvelope of
        None \<Rightarrow> originOfTime
      | Some s \<Rightarrow> (case snapshottedEventCreatedAt s of None \<Rightarrow> originOfTime | Some t \<Rightarrow> t))"

definition fetchEntitySnapshot ::
  "('p, 'v) BoosterConfig \<Rightarrow> string \<Rightarrow> UUID \<Rightarrow> Date option \<Rightarrow> ('p, 'v) world
    \<Rightarrow> (js_error + 'v EventEnvelope option) \<times> ('p, 'v) world" where
  "fetchEntitySnapshot cfg entityName entityId at w =
     (case loadSnapshot cfg entityName entityId at w of
        (Inl e, w1) \<Rightarrow> (Inl e, w1)
      | (Inr snapshotEnvelope, w1) \<Rightarrow>
          (case loadEventStreamSince cfg entityName entityId
                  (lastVisitedTime snapshotEnvelope) w1 of
             (Inl e, w2) \<Rightarrow> (Inl e, w2)
           | (Inr pendingEvents, w2) \<Rightarrow>
               if length pendingEvents \<le> 0 then (Inr snapshotEnvelope, w2)
               else reduce cfg pendingEvents snapshotEnvelope w2))"

text \<open>
  \<open>calculateAndStoreEntitySnapshot\<close> begins with
  \<open>await this.loadLatestSnapshot(entityName, entityID)\<close>: the call of a member that is
  \<open>undefined\<close> throws a \<open>TypeError\<close>, which rejects the promise before anything else
  of the body runs.
\<close>

definition calculateAndStoreEntitySnapshot ::
  "('p, 'v) BoosterConfig \<Rightarrow> string \<Rightarrow> UUID \<Rightarrow> 'v EventEnvelope list \<Rightarrow> ('p, 'v) world
    \<Rightarrow> (js_error + 'v EventEnvelope option) \<times> ('p, 'v) world" where
  "calculateAndStoreEntitySnapshot cfg entityName entityId pendingEnvelopes w =
     (case loadLatestSnapshot of
        None \<Rightarrow> (Inl TypeError, w)
      | Some method \<Rightarrow>
          (case method cfg entityName entityId w of
             (Inl e, w1) \<Rightarrow> (Inl e, w1)
           | (Inr latestSnapshotEnvelope, w1) \<Rightarrow>
               (case reduce cfg pendingEnvelopes latestSnapshotEnvelope w1 of
                  (Inl e, w2) \<Rightarrow> (Inl e, w2)
                | (Inr None, w2) \<Rightarrow> (Inr latestSnapshotEnvelope, w2)
                | (Inr (Some newEntitySnapshot), w2) \<Rightarrow>
                    (case storeSnapshot cfg newEntitySnapshot w2 of
                       (Inl e, w3) \<Rightarrow> (Inl e, w3)
                     | (Inr u, w3) \<Rightarrow> (Inr (Some newEntitySnapshot), w3)))))"

subsection \<open>Observing a run\<close>

text \<open>The arguments of the \<open>store\<close> calls in a trace, in order.\<close>

fun store_calls :: "'v effect list \<Rightarrow> 'v EventEnvelope list list" where
  "store_calls [] = []"
| "store_calls (Call_store envs # tr) = envs # store_calls tr"
| "store_calls (x # tr) = store_calls tr"

subsection \<open>An example application\<close>

text \<open>
  Modelled from the spec: a persistence provider (the provider packages are not among
  the sources), here one that keeps every envelope in a list. The spec:
  \<open>loadLatestSnapshot\<close> "returns the most recently stored snapshot for the entity,
  optionally bounded by time"; \<open>loadEventsSince\<close> "returns all events strictly after
  \<open>sinceTimestamp\<close>, in creation order"; \<open>storeSnapshot\<close> "upserts the snapshot as
  the latest for its entity", replacing any snapshot stored for that entity before. It
  serves as the concrete provider of the examples.
\<close>

definition mem_events :: "(int EventEnvelope list, int) ProviderEventsLibrary" where
  "mem_events =
     \<lparr>store = (\<lambda>envs p.
        (Inr (), filter (\<lambda>e. \<not> (kind e = snapshot
                   \<and> list_ex (\<lambda>s. entityTypeName s = entityTypeName e
                                  \<and> entityID s = entityID e) envs)) p @ envs)),
      latestEntitySnapshot = (\<lambda>n i at p.
        (Inr (case filter (\<lambda>e. kind e = snapshot \<and> entityTypeName e = n \<and> entityID e = i
                              \<and> (case at of None \<Rightarrow> True | Some d \<Rightarrow> createdAt e \<le> d)) p of
                [] \<Rightarrow> None
              | x # xs \<Rightarrow> Some (last (x # xs))), p)),
      forEntitySince = (\<lambda>n i ts p.
        (Inr (filter (\<lambda>e. kind e = event \<and> entityTypeName e = n \<and> entityID e = i
                              \<and> ts < createdAt e) p), p))\<rparr>"

text \<open>
  A counter entity. The class \<open>Counter\<close> has three static methods, \<open>reduceAdded\<close>
  (adds the event's number), \<open>reduceCleared\<close> (returns \<open>null\<close>) and
  \<open>reduceBroken\<close> (throws), and an accessor \<open>reduceLazy\<close> that throws when read;
  the other names used below are not members of it. Six event types are registered:
  \<open>Added\<close>, \<open>Cleared\<close>, \<open>Broken\<close> and \<open>Lazy\<close> name these members, \<open>Renamed\<close>
  names a method that the class does not have, and the class reference of \<open>Orphan\<close>
  is \<open>undefined\<close>. No reducer is registered for any other event type.
\<close>

definition Counter :: "int Class" where
  "Counter =
     \<lparr>name = ''Counter'',
      read_member = (\<lambda>m.
        if m = ''reduceAdded'' then
          Callable (\<lambda>ev acc. case ev of
              None \<Rightarrow> Inr acc
            | Some n \<Rightarrow> Inr (Some (n + (case acc of None \<Rightarrow> 0 | Some m \<Rightarrow> m))))
        else if m = ''reduceCleared'' then Callable (\<lambda>ev acc. Inr None)
        else if m = ''reduceBroken'' then Callable (\<lambda>ev acc. Inl (GenericError ''boom''))
        else if m = ''reduceLazy'' then Throws (GenericError ''not loaded'')
        else Not_callable)\<rparr>"

definition counter_config :: "(int EventEnvelope list, int) BoosterConfig" where
  "counter_config =
     \<lparr>provider = \<lparr>events = mem_events\<rparr>,
      reducers =
        [''Added'' \<mapsto> \<lparr>cls = Some Counter, methodName = ''reduceAdded''\<rparr>,
         ''Cleared'' \<mapsto> \<lparr>cls = Some Counter, methodName = ''reduceCleared''\<rparr>,
         ''Broken'' \<mapsto> \<lparr>cls = Some Counter, methodName = ''reduceBroken''\<rparr>,
         ''Renamed'' \<mapsto> \<lparr>cls = Some Counter, methodName = ''reduceRenamed''\<rparr>,
         ''Lazy'' \<mapsto> \<lparr>cls = Some Counter, methodName = ''reduceLazy''\<rparr>,
         ''Orphan'' \<mapsto> \<lparr>cls = None, methodName = ''reduceOrphan''\<rparr>],
      currentVersionFor = (\<lambda>n. 1)\<rparr>"

definition counter_event :: "string \<Rightarrow> int \<Rightarrow> string \<Rightarrow> int EventEnvelope" where
  "counter_event tn v t =
     \<lparr>version = 1, kind = event, requestID = ''req-'' @ t, entityID = ''c1'',
      entityTypeName = ''Counter'', typeName = tn, val = Some v, createdAt = t,
      snapshottedEventCreatedAt = None\<rparr>"

definition counter_snapshot :: "int \<Rightarrow> string \<Rightarrow> int EventEnvelope" where
  "counter_snapshot v t =
     \<lparr>version = 1, kind = snapshot, requestID = ''req-'' @ t, entityID = ''c1'',
      entityTypeName = ''Counter'', typeName = ''Counter'', val = Some v, createdAt = t,
      snapshottedEventCreatedAt = Some t\<rparr>"

definition world0 :: "int EventEnvelope list \<Rightarrow> (int EventEnvelope list, int) world" where
  "world0 p = \<lparr>pstate = p, clock = (\<lambda>n. ''2024-01-01T00:00:00.000Z''), ticks = 0, trace = []\<rparr>"


text \<open>
  Two event logs whose second event has no registered reducer; in the second log its type
  name is one that plain objects inherit.
\<close>

definition ghost_log :: "int EventEnvelope list" where
  "ghost_log =
     [counter_event ''Added'' 2 ''2021'', counter_event ''Ghost'' 0 ''2022'',
      counter_event ''Added'' 3 ''2023'']"

definition inherited_log :: "int EventEnvelope list" where
  "inherited_log =
     [counter_event ''Added'' 2 ''2021'', counter_event ''toString'' 0 ''2022'',
      counter_event ''Added'' 3 ''2023'']"

text \<open>A stored snapshot of the counter at 10 and two later events.\<close>

definition counter_log :: "int EventEnvelope list" where
  "counter_log =
     [counter_snapshot 10 ''2020'', counter_event ''Added'' 2 ''2021'',
      counter_event ''Added'' 3 ''2022'']"

section \<open>Properties\<close>

subsection \<open>Auxiliary facts\<close>

lemmas example_defs =
  counter_config_def mem_events_def Counter_def counter_event_def counter_snapshot_def world0_def

lemmas store_defs =
  fetchEntitySnapshot_def calculateAndStoreEntitySnapshot_def loadSnapshot_def
  loadLatestSnapshot_def loadEventStreamSince_def storeSnapshot_def lastVisitedTime_def
  originOfTime_def entityReducer_def reducerForEvent_def call_function_def
  Object_prototype_def

lemma store_calls_append: "store_calls (xs @ ys) = store_calls xs @ store_calls ys"
  by (induction xs rule: store_calls.induct) simp_all

lemma store_calls_errors: "store_calls (map Logger_error errs) = []"
  by (induction errs) simp_all

lemma entityReducer_world:
  assumes "entityReducer cfg acc e w = (r, w')"
  shows "pstate w' = pstate w \<and> (\<exists>errs. trace w' = trace w @ map Logger_error errs)"
proof (cases r)
  case (Inl err)
  with assms have "w' = w\<lparr>trace := trace w @ [Logger_error err]\<rparr>"
    by (auto simp: entityReducer_def Let_def split: sum.splits)
  then have "pstate w' = pstate w" and "trace w' = trace w @ map Logger_error [err]"
    by simp_all
  then show ?thesis by blast
next
  case (Inr snap)
  with assms have "w' = w\<lparr>ticks := Suc (ticks w)\<rparr>"
    by (auto simp: entityReducer_def Let_def split: sum.splits)
  then have "pstate w' = pstate w" and "trace w' = trace w @ map Logger_error []"
    by simp_all
  then show ?thesis by blast
qed

lemma reduce_world:
  "reduce cfg es acc w = (r, w') \<Longrightarrow>
     pstate w' = pstate w \<and> (\<exists>errs. trace w' = trace w @ map Logger_error errs)"
proof (induction es arbitrary: acc w)
  case Nil
  then have "w' = w" by simp
  then have "trace w' = trace w @ map Logger_error []" by simp
  with \<open>w' = w\<close> show ?case by blast
next
  case (Cons e es)
  obtain r1 w1 where step: "entityReducer cfg acc e w = (r1, w1)"
    by (cases "entityReducer cfg acc e w")
  from entityReducer_world [OF step] obtain errs1
    where w1: "pstate w1 = pstate w" "trace w1 = trace w @ map Logger_error errs1"
    by blast
  show ?case
  proof (cases r1)
    case (Inl err)
    with Cons.prems step have "w' = w1" by simp
    with w1 show ?thesis by blast
  next
    case (Inr snap)
    with Cons.prems step have "reduce cfg es (Some snap) w1 = (r, w')" by simp
    from Cons.IH [OF this] obtain errs2
      where "pstate w' = pstate w1" "trace w' = trace w1 @ map Logger_error errs2"
      by blast
    with w1 have "pstate w' = pstate w"
      and "trace w' = trace w @ map Logger_error (errs1 @ errs2)"
      by simp_all
    then show ?thesis by blast
  qed
qed

lemma reduce_no_store:
  assumes "reduce cfg es acc w = (r, w')"
  shows "\<exists>new. trace w' = trace w @ new \<and> store_calls new = []"
  using reduce_world [OF assms] store_calls_errors by blast

lemma fetchEntitySnapshot_loaded:
  assumes "latestEntitySnapshot (events (provider cfg)) n i at (pstate w) = (Inr snap, p1)"
    and "forEntitySince (events (provider cfg)) n i (lastVisitedTime snap) p1 = (Inr evs, p2)"
  shows "fetchEntitySnapshot cfg n i at w =
     (if evs = [] then
        (Inr snap, w\<lparr>pstate := p2, trace := trace w @
           [Call_latestEntitySnapshot n i at, Call_forEntitySince n i (lastVisitedTime snap)]\<rparr>)
      else reduce cfg evs snap (w\<lparr>pstate := p2, trace := trace w @
           [Call_latestEntitySnapshot n i at, Call_forEntitySince n i (lastVisitedTime snap)]\<rparr>))"
  using assms by (simp add: fetchEntitySnapshot_def loadSnapshot_def loadEventStreamSince_def)

subsection \<open>Reads do not write\<close>

text \<open>
  C6. \<open>fetchEntitySnapshot\<close> never writes to the persistence provider: whatever the
  provider answers and however the fold ends, the calls it adds to the trace contain no
  \<open>store\<close> call.
\<close>

theorem fetchEntitySnapshot_never_stores:
  "\<exists>new. trace (snd (fetchEntitySnapshot cfg n i at w)) = trace w @ new \<and> store_calls new = []"
proof -
  obtain r1 p1 where l1: "latestEntitySnapshot (events (provider cfg)) n i at (pstate w) = (r1, p1)"
    by (cases "latestEntitySnapshot (events (provider cfg)) n i at (pstate w)")
  show ?thesis
  proof (cases r1)
    case (Inl err)
    with l1 have "trace (snd (fetchEntitySnapshot cfg n i at w)) =
        trace w @ [Call_latestEntitySnapshot n i at]"
      by (simp add: fetchEntitySnapshot_def loadSnapshot_def)
    moreover have "store_calls [Call_latestEntitySnapshot n i at] = []" by simp
    ultimately show ?thesis by blast
  next
    case (Inr snap)
    obtain r2 p2 where l2:
      "forEntitySince (events (provider cfg)) n i (lastVisitedTime snap) p1 = (r2, p2)"
      by (cases "forEntitySince (events (provider cfg)) n i (lastVisitedTime snap) p1")
    let ?calls = "[Call_latestEntitySnapshot n i at, Call_forEntitySince n i (lastVisitedTime snap)]"
    let ?w2 = "w\<lparr>pstate := p2, trace := trace w @ ?calls\<rparr>"
    have calls: "store_calls ?calls = []" by simp
    show ?thesis
    proof (cases r2)
      case (Inl err)
      with l1 l2 Inr have "trace (snd (fetchEntitySnapshot cfg n i at w)) = trace w @ ?calls"
        by (simp add: fetchEntitySnapshot_def loadSnapshot_def loadEventStreamSince_def)
      with calls show ?thesis by blast
    next
      case evs: (Inr evs)
      show ?thesis
      proof (cases "evs = []")
        case True
        with l1 l2 Inr evs have "trace (snd (fetchEntitySnapshot cfg n i at w)) = trace w @ ?calls"
          by (simp add: fetchEntitySnapshot_loaded)
        with calls show ?thesis by blast
      next
        case False
        with l1 l2 Inr evs have eq: "fetchEntitySnapshot cfg n i at w = reduce cfg evs snap ?w2"
          by (simp add: fetchEntitySnapshot_loaded)
        obtain r3 w3 where red: "reduce cfg evs snap ?w2 = (r3, w3)"
          by (cases "reduce cfg evs snap ?w2")
        from reduce_no_store [OF red] obtain new
          where "trace w3 = trace ?w2 @ new" "store_calls new = []" by blast
        with eq red have "trace (snd (fetchEntitySnapshot cfg n i at w)) = trace w @ (?calls @ new)"
          and "store_calls (?calls @ new) = []"
          by (simp_all add: store_calls_append)
        then show ?thesis by blast
      qed
    qed
  qed
qed

subsection \<open>Nothing stored, nothing recorded\<close>

text \<open>
  C8. When the provider has no snapshot and no events for the entity,
  \<open>fetchEntitySnapshot\<close> returns \<open>null\<close>, as a result and not as an error, after the
  two loads and nothing else.
\<close>

theorem fetchEntitySnapshot_nothing_known:
  assumes "latestEntitySnapshot (events (provider cfg)) n i at (pstate w) = (Inr None, p1)"
    and "forEntitySince (events (provider cfg)) n i originOfTime p1 = (Inr [], p2)"
  shows "fetchEntitySnapshot cfg n i at w =
     (Inr None, w\<lparr>pstate := p2, trace := trace w @
        [Call_latestEntitySnapshot n i at, Call_forEntitySince n i originOfTime]\<rparr>)"
  using assms fetchEntitySnapshot_loaded [of cfg n i at w None p1 "[]" p2]
  by (simp add: lastVisitedTime_def)

theorem fetchEntitySnapshot_nothing_known_witness:
  "latestEntitySnapshot (events (provider counter_config)) ''Counter'' ''c1'' None
      (pstate (world0 [])) = (Inr None, [])
   \<and> forEntitySince (events (provider counter_config)) ''Counter'' ''c1'' originOfTime []
      = (Inr [], [])
   \<and> fst (fetchEntitySnapshot counter_config ''Counter'' ''c1'' None (world0 [])) = Inr None"
proof -
  have h1: "latestEntitySnapshot (events (provider counter_config)) ''Counter'' ''c1'' None
      (pstate (world0 [])) = (Inr None, [])"
    by (simp add: example_defs)
  have h2: "forEntitySince (events (provider counter_config)) ''Counter'' ''c1'' originOfTime []
      = (Inr [], [])"
    by (simp add: example_defs)
  from fetchEntitySnapshot_nothing_known [OF h1 h2] h1 h2 show ?thesis by simp
qed

subsection \<open>Facts about the fold\<close>

lemma reduce_append:
  "reduce cfg (xs @ ys) acc w =
     (case reduce cfg xs acc w of
        (Inl err, w') \<Rightarrow> (Inl err, w')
      | (Inr a, w') \<Rightarrow> reduce cfg ys a w')"
proof (induction xs arbitrary: acc w)
  case Nil
  show ?case by simp
next
  case (Cons x xs)
  show ?case
  proof (cases "entityReducer cfg acc x w")
    case (Pair r1 w1)
    then show ?thesis using Cons.IH [of _ w1] by (cases r1) simp_all
  qed
qed

lemma entityReducer_Inl:
  assumes "fst (entityReducer cfg acc e w) = Inl err"
  shows "entityReducer cfg acc e w = (Inl err, w\<lparr>trace := trace w @ [Logger_error err]\<rparr>)"
  using assms by (auto simp: entityReducer_def Let_def split: sum.splits)

lemma reduce_fails_at:
  assumes pre: "fst (reduce cfg pre acc0 w0) = Inr acc"
    and step: "fst (entityReducer cfg acc e (snd (reduce cfg pre acc0 w0))) = Inl err"
  shows "reduce cfg (pre @ e # post) acc0 w0 =
     (Inl err, (snd (reduce cfg pre acc0 w0))
        \<lparr>trace := trace (snd (reduce cfg pre acc0 w0)) @ [Logger_error err]\<rparr>)"
proof -
  obtain w1 where r: "reduce cfg pre acc0 w0 = (Inr acc, w1)"
    using pre by (cases "reduce cfg pre acc0 w0") simp
  from step r have "fst (entityReducer cfg acc e w1) = Inl err" by simp
  from entityReducer_Inl [OF this] r show ?thesis
    by (simp add: reduce_append)
qed

lemma entityReducer_throws:
  assumes "reducerForEvent cfg (typeName e) = Inr (Some r)"
    and "r (val e) (case acc of None \<Rightarrow> None | Some s \<Rightarrow> val s) = Inl err"
  shows "fst (entityReducer cfg acc e w) = Inl err"
  using assms by (simp add: entityReducer_def call_function_def)

lemma entityReducer_missing:
  assumes "reducers cfg (typeName e) = None" and "typeName e \<notin> set Object_prototype"
  shows "fst (entityReducer cfg acc e w) =
     Inl (InvalidParameterError (''No reducer registered for event '' @ typeName e))"
  using assms by (simp add: entityReducer_def reducerForEvent_def)

lemma reduce_stores_nothing:
  "pstate (snd (reduce cfg es acc w)) = pstate w
   \<and> store_calls (trace (snd (reduce cfg es acc w))) = store_calls (trace w)"
proof -
  obtain r w' where red: "reduce cfg es acc w = (r, w')"
    by (cases "reduce cfg es acc w")
  from reduce_world [OF red] show ?thesis
    using red by (auto simp: store_calls_append store_calls_errors)
qed

lemma fetchEntitySnapshot_fold_fails:
  assumes l1: "latestEntitySnapshot (events (provider cfg)) n i at (pstate w) = (Inr snap, p1)"
    and l2: "forEntitySince (events (provider cfg)) n i (lastVisitedTime snap) p1
      = (Inr (pre @ e # post), p2)"
    and w2: "w2 = w\<lparr>pstate := p2, trace := trace w @
        [Call_latestEntitySnapshot n i at, Call_forEntitySince n i (lastVisitedTime snap)]\<rparr>"
    and pre: "fst (reduce cfg pre snap w2) = Inr acc"
    and step: "fst (entityReducer cfg acc e (snd (reduce cfg pre snap w2))) = Inl err"
  shows "fetchEntitySnapshot cfg n i at w =
       (Inl err, (snd (reduce cfg pre snap w2))
          \<lparr>trace := trace (snd (reduce cfg pre snap w2)) @ [Logger_error err]\<rparr>)"
    and "pstate (snd (fetchEntitySnapshot cfg n i at w)) = p2"
    and "store_calls (trace (snd (fetchEntitySnapshot cfg n i at w))) = store_calls (trace w)"
proof -
  have "fetchEntitySnapshot cfg n i at w = reduce cfg (pre @ e # post) snap w2"
    using fetchEntitySnapshot_loaded [OF l1 l2] w2 by simp
  with reduce_fails_at [OF pre step]
  show eq: "fetchEntitySnapshot cfg n i at w =
       (Inl err, (snd (reduce cfg pre snap w2))
          \<lparr>trace := trace (snd (reduce cfg pre snap w2)) @ [Logger_error err]\<rparr>)"
    by simp
  from reduce_stores_nothing [of cfg pre snap w2]
  have "pstate (snd (reduce cfg pre snap w2)) = p2"
    and "store_calls (trace (snd (reduce cfg pre snap w2))) = store_calls (trace w)"
    by (simp_all add: w2 store_calls_append)
  with eq show "pstate (snd (fetchEntitySnapshot cfg n i at w)) = p2"
    and "store_calls (trace (snd (fetchEntitySnapshot cfg n i at w))) = store_calls (trace w)"
    by (simp_all add: store_calls_append)
qed

lemma fetchEntitySnapshot_missing_reducer:
  assumes "latestEntitySnapshot (events (provider cfg)) n i at (pstate w) = (Inr snap, p1)"
    and "forEntitySince (events (provider cfg)) n i (lastVisitedTime snap) p1
      = (Inr (pre @ e # post), p2)"
    and "w2 = w\<lparr>pstate := p2, trace := trace w @
        [Call_latestEntitySnapshot n i at, Call_forEntitySince n i (lastVisitedTime snap)]\<rparr>"
    and "fst (reduce cfg pre snap w2) = Inr acc"
    and "reducers cfg (typeName e) = None"
    and "typeName e \<notin> set Object_prototype"
  shows "fst (fetchEntitySnapshot cfg n i at w) =
        Inl (InvalidParameterError (''No reducer registered for event '' @ typeName e))
      \<and> pstate (snd (fetchEntitySnapshot cfg n i at w)) = p2
      \<and> store_calls (trace (snd (fetchEntitySnapshot cfg n i at w))) = store_calls (trace w)"
proof -
  note fails = fetchEntitySnapshot_fold_fails
    [OF assms(1-4) entityReducer_missing [OF assms(5) assms(6)]]
  from fails(1) have "fst (fetchEntitySnapshot cfg n i at w) =
        Inl (InvalidParameterError (''No reducer registered for event '' @ typeName e))"
    by simp
  with fails(2) fails(3) show ?thesis by blast
qed

lemma calculateAndStoreEntitySnapshot_rejects:
  "calculateAndStoreEntitySnapshot cfg n i es w = (Inl TypeError, w)"
  by (simp add: calculateAndStoreEntitySnapshot_def loadLatestSnapshot_def)

subsection \<open>A reducer that throws\<close>


subsection \<open>An event without a reducer\<close>

text \<open>
  C5. No reducer is registered for \<open>Ghost\<close>, nor for \<open>toString\<close>. For \<open>Ghost\<close>,
  \<open>fetchEntitySnapshot\<close> fails with the \<open>InvalidParameterError\<close> of
  \<open>reducerForEvent\<close> (the missing-reducer error). For \<open>toString\<close> the lookup in
  \<open>config.reducers\<close> finds the method that every plain object inherits, the test for a
  missing entry does not fire, and the caller gets a \<open>TypeError\<close>. In both cases nothing
  is stored.
\<close>

theorem inherited_name_hides_missing_reducer:
  "reducers counter_config ''toString'' = None
   \<and> reducerForEvent counter_config ''toString'' = Inl TypeError
   \<and> fst (fetchEntitySnapshot counter_config ''Counter'' ''c1'' None (world0 inherited_log))
     = Inl TypeError
   \<and> store_calls (trace (snd (fetchEntitySnapshot counter_config ''Counter'' ''c1'' None
        (world0 inherited_log)))) = []
   \<and> reducers counter_config ''Ghost'' = None
   \<and> fst (fetchEntitySnapshot counter_config ''Counter'' ''c1'' None (world0 ghost_log))
     = Inl (InvalidParameterError ''No reducer registered for event Ghost'')
   \<and> store_calls (trace (snd (fetchEntitySnapshot counter_config ''Counter'' ''c1'' None
        (world0 ghost_log)))) = []"
  by (simp add: example_defs store_defs inherited_log_def ghost_log_def)

subsection \<open>The empty list of pending events\<close>

text \<open>
  C3. A snapshot of the counter is stored and the list of pending events is empty.
  \<open>calculateAndStoreEntitySnapshot\<close> makes no store call, but it does not return the
  stored snapshot either: it fails with a \<open>TypeError\<close> before it calls the provider at
  all, because \<open>this.loadLatestSnapshot\<close> is \<open>undefined\<close>.
\<close>

theorem empty_pending_list_rejects:
  "latestEntitySnapshot (events (provider counter_config)) ''Counter'' ''c1'' None
      (pstate (world0 [counter_snapshot 10 ''2020'']))
     = (Inr (Some (counter_snapshot 10 ''2020'')), [counter_snapshot 10 ''2020''])
   \<and> calculateAndStoreEntitySnapshot counter_config ''Counter'' ''c1'' []
        (world0 [counter_snapshot 10 ''2020''])
     = (Inl TypeError, world0 [counter_snapshot 10 ''2020''])
   \<and> trace (world0 [counter_snapshot 10 ''2020'']) = []"
  by (simp add: calculateAndStoreEntitySnapshot_rejects) (simp add: example_defs)

subsection \<open>A non-empty list of pending events\<close>

text \<open>
  C10. One event is pending, its type \<open>Cleared\<close> resolves to a reducer that does not
  throw, and the provider's \<open>store\<close> would succeed.
  \<open>calculateAndStoreEntitySnapshot\<close> returns no envelope and calls \<open>store\<close> not once
  but never: it fails with a \<open>TypeError\<close> before it calls the provider at all, because
  \<open>this.loadLatestSnapshot\<close> is \<open>undefined\<close>.
\<close>

theorem nonempty_pending_list_rejects:
  "map_sum id (map_option (\<lambda>r. r (Some 0) (Some 10)))
        (reducerForEvent counter_config (typeName (counter_event ''Cleared'' 0 ''2021'')))
     = Inr (Some (Inr None))
   \<and> fst (store (events (provider counter_config)) [counter_snapshot 0 ''2021'']
        [counter_snapshot 10 ''2020'']) = Inr ()
   \<and> calculateAndStoreEntitySnapshot counter_config ''Counter'' ''c1''
        [counter_event ''Cleared'' 0 ''2021''] (world0 [counter_snapshot 10 ''2020''])
     = (Inl TypeError, world0 [counter_snapshot 10 ''2020''])
   \<and> store_calls (trace (world0 [counter_snapshot 10 ''2020''])) = []"
  by (simp add: calculateAndStoreEntitySnapshot_rejects)
    (simp add: example_defs reducerForEvent_def)

subsection \<open>The envelope of a fold step\<close>

lemma entityReducer_Inr:
  assumes "fst (entityReducer cfg acc e w) = Inr snap"
  shows "entityID snap = entityID e \<and> entityTypeName snap = entityTypeName e
     \<and> requestID snap = requestID e \<and> typeName snap = entityTypeName e
     \<and> kind snap = snapshot \<and> version snap = currentVersionFor cfg (entityTypeName e)
     \<and> snapshottedEventCreatedAt snap = Some (createdAt e)"
  using assms by (auto simp: entityReducer_def Let_def split: sum.splits)

lemma reduce_last_step:
  "es \<noteq> [] \<Longrightarrow> fst (reduce cfg es acc w) = Inr r \<Longrightarrow>
     \<exists>s acc' w'. r = Some s \<and> fst (entityReducer cfg acc' (last es) w') = Inr s"
proof (induction es arbitrary: acc w)
  case Nil
  then show ?case by simp
next
  case (Cons e es)
  obtain r1 w1 where step: "entityReducer cfg acc e w = (r1, w1)"
    by (cases "entityReducer cfg acc e w")
  show ?case
  proof (cases r1)
    case (Inl err)
    with Cons.prems step show ?thesis by simp
  next
    case (Inr snap)
    with Cons.prems step have red: "fst (reduce cfg es (Some snap) w1) = Inr r" by simp
    show ?thesis
    proof (cases "es = []")
      case True
      with red have "r = Some snap" by simp
      moreover from step Inr have "fst (entityReducer cfg acc e w) = Inr snap" by simp
      ultimately show ?thesis using True by auto
    next
      case False
      from Cons.IH [OF False red] False show ?thesis by simp
    qed
  qed
qed

text \<open>
  C2. A fold step that succeeds yields an envelope whose \<open>entityID\<close>,
  \<open>entityTypeName\<close> and \<open>requestID\<close> are those of the event just folded, whose
  \<open>typeName\<close> is the event's \<open>entityTypeName\<close>, whose \<open>kind\<close> is \<open>snapshot\<close>,
  whose \<open>version\<close> is the configured version of that entity type and whose
  \<open>snapshottedEventCreatedAt\<close> is the event's \<open>createdAt\<close>. Hence the result of folding
  a non-empty list is an envelope with these fields taken from the last event of the list.
\<close>

theorem fold_step_envelope:
  "(fst (entityReducer cfg acc e w) = Inr snap \<longrightarrow>
      entityID snap = entityID e \<and> entityTypeName snap = entityTypeName e
      \<and> requestID snap = requestID e \<and> typeName snap = entityTypeName e
      \<and> kind snap = snapshot \<and> version snap = currentVersionFor cfg (entityTypeName e)
      \<and> snapshottedEventCreatedAt snap = Some (createdAt e))
   \<and> (es \<noteq> [] \<longrightarrow> fst (reduce cfg es acc w) = Inr r \<longrightarrow>
      (\<exists>s. r = Some s
        \<and> entityID s = entityID (last es) \<and> entityTypeName s = entityTypeName (last es)
        \<and> requestID s = requestID (last es) \<and> typeName s = entityTypeName (last es)
        \<and> kind s = snapshot \<and> version s = currentVersionFor cfg (entityTypeName (last es))
        \<and> snapshottedEventCreatedAt s = Some (createdAt (last es))))"
proof (intro conjI impI)
  assume "es \<noteq> []" and "fst (reduce cfg es acc w) = Inr r"
  from reduce_last_step [OF this] obtain s acc' w'
    where "r = Some s" and "fst (entityReducer cfg acc' (last es) w') = Inr s"
    by blast
  with entityReducer_Inr [of cfg acc' "last es" w' s]
  show "\<exists>s. r = Some s
        \<and> entityID s = entityID (last es) \<and> entityTypeName s = entityTypeName (last es)
        \<and> requestID s = requestID (last es) \<and> typeName s = entityTypeName (last es)
        \<and> kind s = snapshot \<and> version s = currentVersionFor cfg (entityTypeName (last es))
        \<and> snapshottedEventCreatedAt s = Some (createdAt (last es))"
    by blast
qed (simp_all add: entityReducer_Inr)

theorem fold_step_envelope_witness:
  "fst (entityReducer counter_config None (counter_event ''Added'' 2 ''2021'') (world0 []))
     = Inr \<lparr>version = 1, kind = snapshot, requestID = ''req-2021'', entityID = ''c1'',
          entityTypeName = ''Counter'', typeName = ''Counter'', val = Some 2,
          createdAt = ''2024-01-01T00:00:00.000Z'',
          snapshottedEventCreatedAt = Some ''2021''\<rparr>
   \<and> [counter_event ''Added'' 2 ''2021'', counter_event ''Added'' 3 ''2022''] \<noteq> []
   \<and> fst (reduce counter_config
        [counter_event ''Added'' 2 ''2021'', counter_event ''Added'' 3 ''2022''] None (world0 []))
     = Inr (Some \<lparr>version = 1, kind = snapshot, requestID = ''req-2022'', entityID = ''c1'',
          entityTypeName = ''Counter'', typeName = ''Counter'', val = Some 5,
          createdAt = ''2024-01-01T00:00:00.000Z'',
          snapshottedEventCreatedAt = Some ''2022''\<rparr>)
   \<and> (\<exists>s. Some \<lparr>version = 1, kind = snapshot, requestID = ''req-2022'', entityID = ''c1'',
          entityTypeName = ''Counter'', typeName = ''Counter'', val = Some (5::int),
          createdAt = ''2024-01-01T00:00:00.000Z'',
          snapshottedEventCreatedAt = Some ''2022''\<rparr> = Some s
        \<and> typeName s = entityTypeName (counter_event ''Added'' 3 ''2022'')
        \<and> snapshottedEventCreatedAt s = Some (createdAt (counter_event ''Added'' 3 ''2022'')))"
proof -
  let ?e1 = "counter_event ''Added'' 2 ''2021''"
  let ?e2 = "counter_event ''Added'' 3 ''2022''"
  let ?s1 = "\<lparr>version = 1, kind = snapshot, requestID = ''req-2021'', entityID = ''c1'',
          entityTypeName = ''Counter'', typeName = ''Counter'', val = Some (2::int),
          createdAt = ''2024-01-01T00:00:00.000Z'',
          snapshottedEventCreatedAt = Some ''2021''\<rparr>"
  let ?s2 = "\<lparr>version = 1, kind = snapshot, requestID = ''req-2022'', entityID = ''c1'',
          entityTypeName = ''Counter'', typeName = ''Counter'', val = Some (5::int),
          createdAt = ''2024-01-01T00:00:00.000Z'',
          snapshottedEventCreatedAt = Some ''2022''\<rparr>"
  have h1: "fst (entityReducer counter_config None ?e1 (world0 [])) = Inr ?s1"
    by (simp add: example_defs store_defs)
  have h2: "[?e1, ?e2] \<noteq> []" by simp
  have h3: "fst (reduce counter_config [?e1, ?e2] None (world0 [])) = Inr (Some ?s2)"
    by (simp add: example_defs store_defs)
  have "last [?e1, ?e2] = ?e2" by simp
  with fold_step_envelope [of counter_config None ?e1 "world0 []" ?s1 "[?e1, ?e2]" "Some ?s2"]
    h1 h2 h3
  have "\<exists>s. Some ?s2 = Some s \<and> typeName s = entityTypeName ?e2
      \<and> snapshottedEventCreatedAt s = Some (createdAt ?e2)"
    by auto
  with h1 h2 h3 show ?thesis by blast
qed

subsection \<open>The cursor of the event fetch\<close>




subsection \<open>The \<open>at\<close> argument\<close>

lemma entityReducer_clock:
  assumes "clock w = clock v" and "ticks w = ticks v"
  shows "fst (entityReducer cfg acc e w) = fst (entityReducer cfg acc e v)
     \<and> clock (snd (entityReducer cfg acc e w)) = clock (snd (entityReducer cfg acc e v))
     \<and> ticks (snd (entityReducer cfg acc e w)) = ticks (snd (entityReducer cfg acc e v))"
  using assms by (simp add: entityReducer_def Let_def split: sum.splits)

lemma reduce_clock:
  "clock w = clock v \<Longrightarrow> ticks w = ticks v \<Longrightarrow>
     fst (reduce cfg es acc w) = fst (reduce cfg es acc v)"
proof (induction es arbitrary: acc w v)
  case Nil
  show ?case by simp
next
  case (Cons e es)
  obtain r1 w1 where sw: "entityReducer cfg acc e w = (r1, w1)"
    by (cases "entityReducer cfg acc e w")
  obtain r2 v1 where sv: "entityReducer cfg acc e v = (r2, v1)"
    by (cases "entityReducer cfg acc e v")
  from entityReducer_clock [OF Cons.prems, of cfg acc e] sw sv
  have eq: "r1 = r2" "clock w1 = clock v1" "ticks w1 = ticks v1" by simp_all
  show ?case
  proof (cases r1)
    case (Inl err)
    with eq sw sv show ?thesis by auto
  next
    case (Inr snap)
    with eq sw sv Cons.IH [OF eq(2) eq(3), of "Some snap"] show ?thesis by auto
  qed
qed

lemma fetchEntitySnapshot_result:
  "fst (fetchEntitySnapshot cfg n i at w) =
     (case latestEntitySnapshot (events (provider cfg)) n i at (pstate w) of
        (Inl err, p1) \<Rightarrow> Inl err
      | (Inr snap, p1) \<Rightarrow>
          (case forEntitySince (events (provider cfg)) n i (lastVisitedTime snap) p1 of
             (Inl err, p2) \<Rightarrow> Inl err
           | (Inr evs, p2) \<Rightarrow> if evs = [] then Inr snap else fst (reduce cfg evs snap w)))"
proof -
  have "fst (reduce cfg evs snap (w\<lparr>pstate := p, trace := t\<rparr>)) = fst (reduce cfg evs snap w)"
    for evs snap p t
    by (rule reduce_clock) simp_all
  then show ?thesis
    by (simp add: fetchEntitySnapshot_def loadSnapshot_def loadEventStreamSince_def
        split: prod.splits sum.splits)
qed

text \<open>
  C7. The \<open>at\<close> argument of \<open>fetchEntitySnapshot\<close> only selects the base snapshot: two
  calls whose \<open>at\<close> make the provider return the same snapshot have the same result.
  The event fetch is made with the entity and the cursor alone, and every event it
  returns is folded, whether or not it is later than \<open>at\<close>.
\<close>

theorem at_only_selects_the_base_snapshot:
  "(latestEntitySnapshot (events (provider cfg)) n i at' (pstate w)
      = latestEntitySnapshot (events (provider cfg)) n i at (pstate w) \<longrightarrow>
      fst (fetchEntitySnapshot cfg n i at' w) = fst (fetchEntitySnapshot cfg n i at w))
   \<and> (latestEntitySnapshot (events (provider cfg)) n i at (pstate w) = (Inr snap, p1) \<longrightarrow>
       forEntitySince (events (provider cfg)) n i (lastVisitedTime snap) p1 = (Inr evs, p2) \<longrightarrow>
       evs \<noteq> [] \<longrightarrow>
       fetchEntitySnapshot cfg n i at w =
         reduce cfg evs snap (w\<lparr>pstate := p2, trace := trace w @
           [Call_latestEntitySnapshot n i at,
            Call_forEntitySince n i (lastVisitedTime snap)]\<rparr>))"
proof (intro conjI impI)
  assume "latestEntitySnapshot (events (provider cfg)) n i at' (pstate w)
      = latestEntitySnapshot (events (provider cfg)) n i at (pstate w)"
  then show "fst (fetchEntitySnapshot cfg n i at' w) = fst (fetchEntitySnapshot cfg n i at w)"
    by (simp only: fetchEntitySnapshot_result)
next
  assume "latestEntitySnapshot (events (provider cfg)) n i at (pstate w) = (Inr snap, p1)"
    and "forEntitySince (events (provider cfg)) n i (lastVisitedTime snap) p1 = (Inr evs, p2)"
    and "evs \<noteq> []"
  with fetchEntitySnapshot_loaded [of cfg n i at w snap p1 evs p2]
  show "fetchEntitySnapshot cfg n i at w =
         reduce cfg evs snap (w\<lparr>pstate := p2, trace := trace w @
           [Call_latestEntitySnapshot n i at,
            Call_forEntitySince n i (lastVisitedTime snap)]\<rparr>)"
    by simp
qed

theorem at_only_selects_the_base_snapshot_witness:
  "latestEntitySnapshot (events (provider counter_config)) ''Counter'' ''c1'' None
      (pstate (world0 counter_log))
     = latestEntitySnapshot (events (provider counter_config)) ''Counter'' ''c1'' (Some ''2021'')
      (pstate (world0 counter_log))
   \<and> latestEntitySnapshot (events (provider counter_config)) ''Counter'' ''c1'' (Some ''2021'')
      (pstate (world0 counter_log)) = (Inr (Some (counter_snapshot 10 ''2020'')), counter_log)
   \<and> forEntitySince (events (provider counter_config)) ''Counter'' ''c1''
        (lastVisitedTime (Some (counter_snapshot 10 ''2020''))) counter_log
      = (Inr [counter_event ''Added'' 2 ''2021'', counter_event ''Added'' 3 ''2022''], counter_log)
   \<and> [counter_event ''Added'' 2 ''2021'', counter_event ''Added'' 3 ''2022''] \<noteq> []
   \<and> fst (fetchEntitySnapshot counter_config ''Counter'' ''c1'' None (world0 counter_log))
      = fst (fetchEntitySnapshot counter_config ''Counter'' ''c1'' (Some ''2021'')
          (world0 counter_log))
   \<and> ''2021'' < createdAt (counter_event ''Added'' 3 ''2022'')
   \<and> fst (fetchEntitySnapshot counter_config ''Counter'' ''c1'' (Some ''2021'')
        (world0 counter_log))
      = Inr (Some \<lparr>version = 1, kind = snapshot, requestID = ''req-2022'', entityID = ''c1'',
          entityTypeName = ''Counter'', typeName = ''Counter'', val = Some 15,
          createdAt = ''2024-01-01T00:00:00.000Z'',
          snapshottedEventCreatedAt = Some ''2022''\<rparr>)"
proof -
  let ?s = "counter_snapshot 10 ''2020''"
  let ?evs = "[counter_event ''Added'' 2 ''2021'', counter_event ''Added'' 3 ''2022'']"
  let ?w = "world0 counter_log"
  have h1: "latestEntitySnapshot (events (provider counter_config)) ''Counter'' ''c1'' None
      (pstate ?w)
     = latestEntitySnapshot (events (provider counter_config)) ''Counter'' ''c1'' (Some ''2021'')
      (pstate ?w)"
    by (simp add: example_defs counter_log_def)
  have h2: "latestEntitySnapshot (events (provider counter_config)) ''Counter'' ''c1''
      (Some ''2021'') (pstate ?w) = (Inr (Some ?s), counter_log)"
    by (simp add: example_defs counter_log_def)
  have h3: "forEntitySince (events (provider counter_config)) ''Counter'' ''c1''
        (lastVisitedTime (Some ?s)) counter_log = (Inr ?evs, counter_log)"
    by (simp add: example_defs counter_log_def lastVisitedTime_def)
  have h4: "?evs \<noteq> []" by simp
  note T = at_only_selects_the_base_snapshot [where cfg = counter_config and n = "''Counter''"
      and i = "''c1''" and at = "Some ''2021''" and at' = None and w = ?w and snap = "Some ?s"
      and ?p1.0 = counter_log and ?p2.0 = counter_log and evs = ?evs]
  from T h1 have same:
    "fst (fetchEntitySnapshot counter_config ''Counter'' ''c1'' None ?w)
      = fst (fetchEntitySnapshot counter_config ''Counter'' ''c1'' (Some ''2021'') ?w)"
    by blast
  from T h2 h3 h4 have f: "fetchEntitySnapshot counter_config ''Counter'' ''c1'' (Some ''2021'') ?w
      = reduce counter_config ?evs (Some ?s) (?w\<lparr>pstate := counter_log, trace := trace ?w @
           [Call_latestEntitySnapshot ''Counter'' ''c1'' (Some ''2021''),
            Call_forEntitySince ''Counter'' ''c1'' (lastVisitedTime (Some ?s))]\<rparr>)"
    by blast
  have later: "''2021'' < createdAt (counter_event ''Added'' 3 ''2022'')"
    by (simp add: counter_event_def)
  have r: "fst (fetchEntitySnapshot counter_config ''Counter'' ''c1'' (Some ''2021'') ?w)
      = Inr (Some \<lparr>version = 1, kind = snapshot, requestID = ''req-2022'', entityID = ''c1'',
          entityTypeName = ''Counter'', typeName = ''Counter'', val = Some 15,
          createdAt = ''2024-01-01T00:00:00.000Z'',
          snapshottedEventCreatedAt = Some ''2022''\<rparr>)"
    unfolding f by (simp add: example_defs store_defs)
  from h1 h2 h3 h4 same later r show ?thesis by blast
qed

subsection \<open>A registered reducer that cannot be resolved\<close>

lemma reducerForEvent_errors:
  "reducerForEvent cfg eventName = Inl err \<Longrightarrow>
     reducers cfg eventName = None \<and> eventName \<notin> set Object_prototype
       \<and> err = InvalidParameterError (''No reducer registered for event '' @ eventName)
     \<or> reducers cfg eventName = None \<and> eventName \<in> set Object_prototype \<and> err = TypeError
     \<or> (\<exists>m. reducers cfg eventName = Some m \<and> cls m = None \<and> err = TypeError)
     \<or> (\<exists>m c e. reducers cfg eventName = Some m \<and> cls m = Some c
           \<and> read_member c (methodName m) = Throws e
           \<and> err = GenericError (''Couldn't load the Entity class '' @ name c))"
  by (auto simp: reducerForEvent_def split: option.splits member.splits if_splits)

lemma reducerForEvent_Lazy:
  "reducerForEvent counter_config ''Lazy''
     = Inl (GenericError ''Couldn't load the Entity class Counter'')"
  by (simp add: example_defs reducerForEvent_def)

text \<open>
  C9. A reducer is registered for \<open>Renamed\<close>, but the class has no such method. The
  lookup \<open>reducerForEvent\<close> does not fail: it returns \<open>undefined\<close>. The failure comes
  later and is a \<open>TypeError\<close>, raised when \<open>entityReducer\<close> calls that value; the
  error that the \<open>catch\<close> block of the lookup was written to raise is not what the
  caller sees. The same error comes out for \<open>Orphan\<close>, whose class reference is
  \<open>undefined\<close>.
\<close>

theorem unresolvable_reducer_is_not_reported_by_lookup:
  "map_option methodName (reducers counter_config ''Renamed'') = Some ''reduceRenamed''
   \<and> reducerForEvent counter_config ''Renamed'' = Inr None
   \<and> fst (fetchEntitySnapshot counter_config ''Counter'' ''c1'' None
        (world0 [counter_event ''Renamed'' 0 ''2021''])) = Inl TypeError
   \<and> reducerForEvent counter_config ''Orphan'' = Inl TypeError
   \<and> fst (fetchEntitySnapshot counter_config ''Counter'' ''c1'' None
        (world0 [counter_event ''Orphan'' 0 ''2021''])) = Inl TypeError"
  by (simp add: example_defs store_defs)

end
